theory Spec2Isabelle
  imports Complex_Main
begin

section \<open>The agent state the UI shares with the agent (restaurant-types.ts)\<close>

text \<open>
  \<^verbatim>\<open>Restaurant\<close> and \<^verbatim>\<open>RestaurantFinderAgentState\<close> as the TypeScript declares them.
  An optional field (\<^verbatim>\<open>cuisine?: string\<close>) and a nullable one (\<^verbatim>\<open>error: string | null\<close>)
  are options; \<^verbatim>\<open>feedback?: string | null\<close> is both. A \<^verbatim>\<open>number\<close> is only stored and
  copied by the code modelled here, never computed with, and is a real. The two
  \<^verbatim>\<open>completed\<close> fields carry the name of their section.
\<close>

record Restaurant =
  restaurant_id :: string
  name :: string
  cuisine :: "string option"
  address :: "string option"
  priceRange :: "string option"
  rating :: "string option"
  url :: "string option"
  imageUrl :: "string option"

datatype phase =
    Idle
  | Initialized
  | Searching_restaurants
  | Restaurants_found
  | Presenting_recommendations
  | Await_feedback
  | Processing_feedback
  | Completed
  | Feedback_completed

datatype stage = Not_started | Searching | Found | Analyzing | Recommending | Feedback | Complete

record status_section =
  phase :: phase
  error :: "string option"
  timestamp :: "string option"

record search_section =
  query :: string
  location :: string
  stage :: stage
  restaurants_found :: real
  restaurants :: "Restaurant list option"
  search_completed :: bool

record processing_section =
  progress :: real
  phases :: "string list"
  currentPhase :: string
  recommendations :: "string option"
  processing_completed :: bool
  inProgress :: bool
  feedback :: "string option option"

record ui_section =
  showRestaurants :: bool
  showProgress :: bool
  activeTab :: string
  showFeedbackPrompt :: "bool option"
  feedbackOptions :: "string list option"

record RestaurantFinderAgentState =
  status :: status_section
  search :: search_section
  processing :: processing_section
  ui :: ui_section

section \<open>The RestaurantFinder component (RestaurantFinder.tsx)\<close>

text \<open>The \<^verbatim>\<open>initialState\<close> handed to \<^verbatim>\<open>useCoAgent\<close>.\<close>

definition initialState :: RestaurantFinderAgentState where
  "initialState =
     \<lparr> status = \<lparr> phase = Idle, error = None, timestamp = None \<rparr>,
       search = \<lparr> query = '''', location = '''', stage = Not_started, restaurants_found = 0,
                  restaurants = Some [], search_completed = False \<rparr>,
       processing = \<lparr> progress = 0, phases = [''search'', ''recommend'', ''feedback''],
                      currentPhase = '''', recommendations = None,
                      processing_completed = False, inProgress = False, feedback = None \<rparr>,
       ui = \<lparr> showRestaurants = False, showProgress = False, activeTab = ''chat'',
              showFeedbackPrompt = Some False,
              feedbackOptions = Some
                [''Thanks for the recommendations! These look perfect.'',
                 ''Can you suggest more restaurants with different cuisines?'',
                 ''I'' @ [CHR 0x27] @ ''m looking for more budget-friendly dining options.'',
                 ''I prefer upscale fine dining experiences. Any suggestions?'',
                 ''Are there any restaurants with unique dining experiences?''] \<rparr> \<rparr>"

subsection \<open>Values the action receives\<close>

text \<open>
  The arguments of the \<^verbatim>\<open>provideFeedback\<close> action arrive from the agent's tool call, so
  at run time \<^verbatim>\<open>args\<close> is whatever JSON the call carried, or \<^verbatim>\<open>undefined\<close> while it is
  still streaming. Reading a property of \<^verbatim>\<open>undefined\<close> or \<^verbatim>\<open>null\<close> and calling
  \<^verbatim>\<open>.map\<close> on something that has none throw a \<^verbatim>\<open>TypeError\<close>; both are results here.
\<close>

datatype jsval =
    JUndefined
  | JNull
  | JBool bool
  | JNum real
  | JStr string
  | JArr "jsval list"
  | JObj "(string \<times> jsval) list"

datatype js_error = TypeError

text \<open>
  \<^verbatim>\<open>v.k\<close> for the two keys the action reads, \<^verbatim>\<open>feedbackOptions\<close> and \<^verbatim>\<open>message\<close>: no
  prototype defines them, so only an object can hold them (its properties are the list's
  bindings, the first for a key), and every other value but \<^verbatim>\<open>undefined\<close> and \<^verbatim>\<open>null\<close>
  yields \<^verbatim>\<open>undefined\<close>.
\<close>

fun member :: "jsval \<Rightarrow> string \<Rightarrow> js_error + jsval" where
  "member JUndefined k = Inl TypeError"
| "member JNull k = Inl TypeError"
| "member (JObj kvs) k = Inr (case map_of kvs k of Some v \<Rightarrow> v | None \<Rightarrow> JUndefined)"
| "member v k = Inr JUndefined"

text \<open>\<^verbatim>\<open>v?.k\<close>: optional chaining stops at \<^verbatim>\<open>undefined\<close> and \<^verbatim>\<open>null\<close>.\<close>

definition opt_member :: "jsval \<Rightarrow> string \<Rightarrow> js_error + jsval" where
  "opt_member v k = (if v = JUndefined \<or> v = JNull then Inr JUndefined else member v k)"

text \<open>\<^verbatim>\<open>Array.isArray(v)\<close>.\<close>

fun isArray :: "jsval \<Rightarrow> bool" where
  "isArray (JArr xs) = True"
| "isArray v = False"

text \<open>
  \<^verbatim>\<open>!v\<close>: the falsy values among those JSON can carry (\<^verbatim>\<open>NaN\<close> is not one of them).
\<close>

fun falsy :: "jsval \<Rightarrow> bool" where
  "falsy JUndefined = True"
| "falsy JNull = True"
| "falsy (JBool b) = (\<not> b)"
| "falsy (JNum x) = (x = 0)"
| "falsy (JStr s) = (s = [])"
| "falsy v = False"

text \<open>\<^verbatim>\<open>v.map((option, index) => f(option, index))\<close>.\<close>

fun array_map :: "jsval \<Rightarrow> (jsval \<Rightarrow> nat \<Rightarrow> 'b) \<Rightarrow> js_error + 'b list" where
  "array_map (JArr xs) f = Inr (map (\<lambda>(option, index). f option index) (zip xs [0..<length xs]))"
| "array_map v f = Inl TypeError"

subsection \<open>What \<^verbatim>\<open>renderAndWaitForResponse\<close> renders\<close>

text \<open>
  The two element trees the function returns: the placeholder
  \<^verbatim>\<open><div>Loading feedback options...</div>\<close>, or the feedback section with its heading
  and one button per option, each with its \<^verbatim>\<open>key\<close> (the index) and its label (the option).
\<close>

datatype element =
    Loading_placeholder string
  | Feedback_section jsval "(nat \<times> jsval) list"

definition default_feedbackOptions :: "string list" where
  "default_feedbackOptions =
     [''Thank you for the recommendations! These look perfect.'',
      ''Can you suggest more restaurants with different cuisines?'',
      ''I'' @ [CHR 0x27] @ ''m looking for more budget-friendly dining options.'',
      ''I prefer upscale fine dining experiences. Any suggestions?'',
      ''Are there any restaurants with unique dining experiences?'']"

definition default_message :: string where
  "default_message = ''How do you feel about these recommendations?''"

text \<open>
  The value of the local \<^verbatim>\<open>feedbackOptions\<close> after its default has been applied (the
  local is \<open>options\<close> here: \<open>feedbackOptions\<close> is the field of the state's \<^verbatim>\<open>ui\<close> section).
\<close>

definition effective_feedbackOptions :: "jsval \<Rightarrow> js_error + jsval" where
  "effective_feedbackOptions args =
     (case opt_member args ''feedbackOptions'' of
        Inl e \<Rightarrow> Inl e
      | Inr options \<Rightarrow>
          Inr (if \<not> isArray options then JArr (map JStr default_feedbackOptions)
               else options))"

text \<open>The value of the local \<^verbatim>\<open>message\<close> after its default has been applied.\<close>

definition effective_message :: "jsval \<Rightarrow> js_error + jsval" where
  "effective_message args =
     (case opt_member args ''message'' of
        Inl e \<Rightarrow> Inl e
      | Inr message \<Rightarrow> Inr (if falsy message then JStr default_message else message))"

text \<open>
  \<^verbatim>\<open>renderAndWaitForResponse: ({ args, respond }) => ...\<close>; \<^verbatim>\<open>respond\<close> is \<^verbatim>\<open>undefined\<close>
  (\<open>None\<close>) until the action is executing. The \<^verbatim>\<open>console.log\<close> calls are left out.
\<close>

definition renderAndWaitForResponse :: "jsval \<Rightarrow> 'r option \<Rightarrow> js_error + element" where
  "renderAndWaitForResponse args respond =
     (case effective_feedbackOptions args of
        Inl e \<Rightarrow> Inl e
      | Inr options \<Rightarrow>
     (case effective_message args of
        Inl e \<Rightarrow> Inl e
      | Inr message \<Rightarrow>
     (case respond of
        None \<Rightarrow> Inr (Loading_placeholder ''Loading feedback options...'')
      | Some r \<Rightarrow>
     (case array_map options (\<lambda>option index. (index, option)) of
        Inl e \<Rightarrow> Inl e
      | Inr buttons \<Rightarrow>
          Inr (Feedback_section (if falsy message then JStr default_message else message)
                 buttons)))))"

subsection \<open>The click on a feedback option\<close>

text \<open>
  \<^verbatim>\<open>JSON.stringify\<close> of a string (QuoteJSONString): the two-character escapes, \<^verbatim>\<open>\u00xx\<close>
  for the other control characters, every other character as it is. A \<open>char\<close> is one
  code unit below 256, so surrogates do not occur.
\<close>

definition hex_digit :: "nat \<Rightarrow> char" where
  "hex_digit n = ''0123456789abcdef'' ! (n mod 16)"

definition json_escape :: "char \<Rightarrow> string" where
  "json_escape c =
     (if c = CHR 0x08 then [CHR 0x5C, CHR ''b'']
      else if c = CHR 0x09 then [CHR 0x5C, CHR ''t'']
      else if c = CHR 0x0A then [CHR 0x5C, CHR ''n'']
      else if c = CHR 0x0C then [CHR 0x5C, CHR ''f'']
      else if c = CHR 0x0D then [CHR 0x5C, CHR ''r'']
      else if c = CHR 0x22 then [CHR 0x5C, CHR 0x22]
      else if c = CHR 0x5C then [CHR 0x5C, CHR 0x5C]
      else if (of_char c :: nat) < 0x20
        then [CHR 0x5C, CHR ''u'', CHR ''0'', CHR ''0'',
              hex_digit (of_char c div 16), hex_digit (of_char c)]
      else [c])"

definition json_quote :: "string \<Rightarrow> string" where
  "json_quote s = [CHR 0x22] @ concat (map json_escape s) @ [CHR 0x22]"

text \<open>The \<^verbatim>\<open>feedbackObject\<close> of the click handler and its \<^verbatim>\<open>JSON.stringify\<close>.\<close>

record feedbackObject =
  feedbackText :: string
  originalLocation :: string

definition JSON_stringify :: "feedbackObject \<Rightarrow> string" where
  "JSON_stringify obj =
     ''{'' @ json_quote ''feedbackText'' @ '':'' @ json_quote (feedbackText obj) @ '','' @
     json_quote ''originalLocation'' @ '':'' @ json_quote (originalLocation obj) @ ''}''"

text \<open>
  The updater handed to \<^verbatim>\<open>setState\<close>: it takes the previous state and does not read it;
  the new state is spread from the \<^verbatim>\<open>state\<close> the component rendered with.
\<close>

definition feedback_setState :: "RestaurantFinderAgentState \<Rightarrow> RestaurantFinderAgentState \<Rightarrow> RestaurantFinderAgentState" where
  "feedback_setState state prev =
     state \<lparr> processing := (processing state) \<lparr> inProgress := True \<rparr>,
             status := (status state) \<lparr> phase := Processing_feedback \<rparr> \<rparr>"

text \<open>
  The button's \<^verbatim>\<open>onClick\<close>: the state update, then \<^verbatim>\<open>respond(feedbackJsonString)\<close>. The
  result is the updater given to \<^verbatim>\<open>setState\<close> and what \<^verbatim>\<open>respond\<close> returned. The option is
  a string, as the action's parameter \<^verbatim>\<open>feedbackOptions: string[]\<close> declares, and
  \<^verbatim>\<open>state?.search?.location || ""\<close> is the location, or \<^verbatim>\<open>""\<close> when it is empty.
\<close>

definition onClick ::
  "string \<Rightarrow> RestaurantFinderAgentState \<Rightarrow> (string \<Rightarrow> 'r) \<Rightarrow>
     (RestaurantFinderAgentState \<Rightarrow> RestaurantFinderAgentState) \<times> 'r" where
  "onClick option state respond =
     (let original = (if location (search state) = [] then [] else location (search state));
          feedbackObject = \<lparr> feedbackText = option, originalLocation = original \<rparr>;
          feedbackJsonString = JSON_stringify feedbackObject
      in (feedback_setState state, respond feedbackJsonString))"

section \<open>The Session Registry and the request that carries the answer\<close>

text \<open>
  The agent behind \<^verbatim>\<open>http://127.0.0.1:8000/agent\<close> (route.ts) is the Python package
  \<^verbatim>\<open>restaurant_finder_agent\<close> (\<^verbatim>\<open>api.py\<close>, \<^verbatim>\<open>agui_crew.py\<close>), and the \<^verbatim>\<open>respond\<close> the render
  function receives is made by the CopilotKit runtime; neither is among the sources. The
  definitions of this section follow the specification's words.
\<close>

text \<open>Modelled from the spec: the identifier of a thread (section 3), a string.\<close>

type_synonym thread_id = string

text \<open>
  Modelled from the spec: PendingFeedback, the record the Run Controller stores when a
  run suspends (section 3): thread id, prior recommendation text, prior restaurant list,
  feedback options.
\<close>

record PendingFeedback =
  pending_thread_id :: thread_id
  prior_recommendations :: string
  prior_restaurants :: "Restaurant list"
  pending_feedbackOptions :: "string list"

text \<open>
  Modelled from the spec: the error kinds of section 7 and the registry's \<^verbatim>\<open>NotFound\<close> of
  section 4.4.
\<close>

datatype adapter_error =
    WorkflowFailure
  | UnknownThread
  | DuplicateThread
  | MalformedResume
  | NotFound

text \<open>
  Modelled from the spec: an entry of the Session Registry. The expiry sweep removes
  entries by age, so an entry keeps the time it was registered at.
\<close>

record registry_entry =
  registered_at :: nat
  pending :: PendingFeedback

text \<open>
  Modelled from the spec: the Session Registry, a process-wide table
  \<^verbatim>\<open>thread_id -> PendingFeedback\<close> (section 4.4).
\<close>

type_synonym registry = "thread_id \<rightharpoonup> registry_entry"

text \<open>
  Modelled from the spec: \<^verbatim>\<open>register(thread_id, data)\<close>, which "fails with DuplicateThread
  if an entry already exists and the caller did not explicitly overwrite"; \<open>now\<close> is the
  clock's reading.
\<close>

definition register ::
  "thread_id \<Rightarrow> PendingFeedback \<Rightarrow> bool \<Rightarrow> nat \<Rightarrow> registry \<Rightarrow> adapter_error + registry" where
  "register t data overwrite now reg =
     (if reg t \<noteq> None \<and> \<not> overwrite then Inl DuplicateThread
      else Inr (reg(t \<mapsto> \<lparr> registered_at = now, pending = data \<rparr>)))"

text \<open>
  Modelled from the spec: \<^verbatim>\<open>take(thread_id)\<close>, which "atomically retrieves and deletes;
  returns NotFound if absent". The result is the stored PendingFeedback and the registry
  without the entry.
\<close>

definition take_pending ::
  "thread_id \<Rightarrow> registry \<Rightarrow> adapter_error + (PendingFeedback \<times> registry)" where
  "take_pending t reg =
     (case reg t of
        None \<Rightarrow> Inl NotFound
      | Some entry \<Rightarrow> Inr (pending entry, reg(t := None)))"

text \<open>
  Modelled from the spec: \<^verbatim>\<open>expire(thread_id, after)\<close>, the sweep "removing entries older
  than a configured TTL": the entry of the thread goes once its age exceeds \<open>after\<close>.
\<close>

definition expire :: "thread_id \<Rightarrow> nat \<Rightarrow> nat \<Rightarrow> registry \<Rightarrow> registry" where
  "expire t after now reg =
     (case reg t of
        None \<Rightarrow> reg
      | Some entry \<Rightarrow> (if registered_at entry + after < now then reg(t := None) else reg))"

text \<open>
  Modelled from the spec: the three registry operations as calls, to speak of what happens
  between two takes. A call that fails leaves the registry as it was.
\<close>

datatype registry_call =
    Register thread_id PendingFeedback bool nat
  | Take thread_id
  | Expire thread_id nat nat

text \<open>Modelled from the spec: the registry after one call of section 4.4.\<close>

fun registry_after :: "registry_call \<Rightarrow> registry \<Rightarrow> registry" where
  "registry_after (Register t data overwrite now) reg =
     (case register t data overwrite now reg of Inl e \<Rightarrow> reg | Inr reg' \<Rightarrow> reg')"
| "registry_after (Take t) reg =
     (case take_pending t reg of Inl e \<Rightarrow> reg | Inr (p, reg') \<Rightarrow> reg')"
| "registry_after (Expire t after now) reg = expire t after now reg"

text \<open>Modelled from the spec: whether a call is a \<^verbatim>\<open>register\<close> for the given thread.\<close>

fun registers :: "thread_id \<Rightarrow> registry_call \<Rightarrow> bool" where
  "registers t (Register t' data overwrite now) = (t' = t)"
| "registers t call = False"

text \<open>
  Modelled from the spec: the inbound request of section 6,
  \<^verbatim>\<open>{thread_id, run_id, messages: [...], feedback?: string}\<close>.
\<close>

record request =
  thread_id :: thread_id
  run_id :: string
  messages :: "string list"
  request_feedback :: "string option"

text \<open>
  Modelled from the spec: the \<^verbatim>\<open>respond\<close> of a run suspended on a thread, which the
  runtime hands to \<^verbatim>\<open>renderAndWaitForResponse\<close>. Section 6 has the UI consumer return
  "its answer via a new top-level request carrying the same \<^verbatim>\<open>thread_id\<close> and the chosen
  feedback text in the \<^verbatim>\<open>feedback\<close> field": the request built for an answer has the
  thread of the suspended run and the answer as its \<^verbatim>\<open>feedback\<close>. The run id and the
  messages of the new request are the runtime's.
\<close>

definition respond_on_thread :: "thread_id \<Rightarrow> string \<Rightarrow> string list \<Rightarrow> string \<Rightarrow> request" where
  "respond_on_thread suspended_thread new_run_id new_messages answer =
     \<lparr> thread_id = suspended_thread, run_id = new_run_id, messages = new_messages,
       request_feedback = Some answer \<rparr>"

section \<open>The render function never fails\<close>

lemma opt_member_total: "\<exists>v. opt_member args k = Inr v"
  by (cases args) (simp_all add: opt_member_def)

lemma effective_feedbackOptions_array:
  "\<exists>xs. effective_feedbackOptions args = Inr (JArr xs)"
proof -
  obtain v where v: "opt_member args ''feedbackOptions'' = Inr v"
    using opt_member_total by blast
  show ?thesis
  proof (cases "isArray v")
    case True
    then obtain xs where "v = JArr xs" by (cases v) simp_all
    with v show ?thesis by (simp add: effective_feedbackOptions_def)
  next
    case False
    with v show ?thesis by (simp add: effective_feedbackOptions_def)
  qed
qed

lemma effective_message_total: "\<exists>m. effective_message args = Inr m \<and> \<not> falsy m"
proof -
  obtain v where v: "opt_member args ''message'' = Inr v"
    using opt_member_total by blast
  then show ?thesis
    by (simp add: effective_message_def default_message_def)
qed

lemma array_map_indexed:
  "array_map (JArr xs) (\<lambda>option index. (index, option)) = Inr (zip [0..<length xs] xs)"
  by (subst zip_commute) simp

lemma render_responding:
  assumes "effective_feedbackOptions args = Inr (JArr xs)" and "effective_message args = Inr m"
    and "\<not> falsy m"
  shows "renderAndWaitForResponse args (Some r) = Inr (Feedback_section m (zip [0..<length xs] xs))"
  using assms by (simp add: renderAndWaitForResponse_def array_map_indexed del: array_map.simps)

lemma render_loading:
  "renderAndWaitForResponse args None = Inr (Loading_placeholder ''Loading feedback options...'')"
proof -
  obtain xs where "effective_feedbackOptions args = Inr (JArr xs)"
    using effective_feedbackOptions_array by blast
  moreover obtain m where "effective_message args = Inr m"
    using effective_message_total by blast
  ultimately show ?thesis by (simp add: renderAndWaitForResponse_def)
qed

text \<open>
  C9. The render function of the \<^verbatim>\<open>provideFeedback\<close> action returns an element for every
  \<^verbatim>\<open>args\<close> and whether or not \<^verbatim>\<open>respond\<close> is there: no property read and no \<^verbatim>\<open>.map\<close> in
  it throws. Without \<^verbatim>\<open>respond\<close> it returns the loading placeholder. With \<^verbatim>\<open>respond\<close> it
  returns the feedback section, whose heading is the message after defaulting and whose
  buttons are the options after defaulting, one per option, in order, keyed by index.
  When \<^verbatim>\<open>args.feedbackOptions\<close> is not an array the options are exactly the five
  built-in strings; when \<^verbatim>\<open>args.message\<close> is absent the heading is
  "How do you feel about these recommendations?".
\<close>

theorem provideFeedback_render_total:
  "(\<exists>el. renderAndWaitForResponse args respond = Inr el) \<and>
   (respond = None \<longrightarrow>
      renderAndWaitForResponse args respond = Inr (Loading_placeholder ''Loading feedback options...'')) \<and>
   (\<forall>r. respond = Some r \<longrightarrow>
      (\<exists>xs m. effective_feedbackOptions args = Inr (JArr xs) \<and> effective_message args = Inr m \<and>
         renderAndWaitForResponse args respond = Inr (Feedback_section m (zip [0..<length xs] xs)))) \<and>
   (\<forall>v. opt_member args ''feedbackOptions'' = Inr v \<and> \<not> isArray v \<longrightarrow>
      effective_feedbackOptions args = Inr (JArr (map JStr default_feedbackOptions)) \<and>
      length default_feedbackOptions = 5) \<and>
   (opt_member args ''message'' = Inr JUndefined \<longrightarrow>
      effective_message args = Inr (JStr ''How do you feel about these recommendations?''))"
proof -
  obtain xs where xs: "effective_feedbackOptions args = Inr (JArr xs)"
    using effective_feedbackOptions_array by blast
  obtain m where m: "effective_message args = Inr m" "\<not> falsy m"
    using effective_message_total by blast
  have resp: "renderAndWaitForResponse args (Some r) = Inr (Feedback_section m (zip [0..<length xs] xs))"
    for r :: 'a
    using xs m by (rule render_responding)
  have 1: "\<exists>el. renderAndWaitForResponse args respond = Inr el"
    by (cases respond) (simp_all add: render_loading resp)
  have 2: "respond = None \<longrightarrow>
      renderAndWaitForResponse args respond = Inr (Loading_placeholder ''Loading feedback options...'')"
    by (simp add: render_loading)
  have 3: "\<forall>r. respond = Some r \<longrightarrow>
      (\<exists>xs m. effective_feedbackOptions args = Inr (JArr xs) \<and> effective_message args = Inr m \<and>
         renderAndWaitForResponse args respond = Inr (Feedback_section m (zip [0..<length xs] xs)))"
    using xs m(1) resp by blast
  have 4: "\<forall>v. opt_member args ''feedbackOptions'' = Inr v \<and> \<not> isArray v \<longrightarrow>
      effective_feedbackOptions args = Inr (JArr (map JStr default_feedbackOptions)) \<and>
      length default_feedbackOptions = 5"
    by (simp add: effective_feedbackOptions_def default_feedbackOptions_def)
  have 5: "opt_member args ''message'' = Inr JUndefined \<longrightarrow>
      effective_message args = Inr (JStr ''How do you feel about these recommendations?'')"
    by (simp add: effective_message_def default_message_def)
  from 1 2 3 4 5 show ?thesis by blast
qed

text \<open>
  The theorem at two inputs: \<^verbatim>\<open>args\<close> undefined and no \<^verbatim>\<open>respond\<close> yet; and
  \<^verbatim>\<open>{feedbackOptions: "none"}\<close> (not an array, no message) with \<^verbatim>\<open>respond\<close> there.
\<close>

theorem provideFeedback_render_total_witness:
  "renderAndWaitForResponse JUndefined (None :: unit option) =
     Inr (Loading_placeholder ''Loading feedback options...'') \<and>
   renderAndWaitForResponse (JObj [(''feedbackOptions'', JStr ''none'')]) (Some ()) =
     Inr (Feedback_section (JStr ''How do you feel about these recommendations?'')
            (zip [0, 1, 2, 3, 4] (map JStr default_feedbackOptions)))"
proof -
  let ?args = "JObj [(''feedbackOptions'', JStr ''none'')]"
  have a: "opt_member ?args ''feedbackOptions'' = Inr (JStr ''none'') \<and> \<not> isArray (JStr ''none'')"
    by (simp add: opt_member_def)
  have b: "opt_member ?args ''message'' = Inr JUndefined"
    by (simp add: opt_member_def)
  have n: "(None :: unit option) = None" by simp
  show ?thesis
    using provideFeedback_render_total [of JUndefined "None :: unit option"]
      provideFeedback_render_total [of ?args "Some ()"] a b n
    by (auto simp: default_feedbackOptions_def)
qed

section \<open>The click on a feedback option\<close>

text \<open>
  C10. The state the click's updater returns differs from the \<^verbatim>\<open>state\<close> the component
  rendered with in \<^verbatim>\<open>processing.inProgress\<close>, now true, and \<^verbatim>\<open>status.phase\<close>, now
  \<^verbatim>\<open>processing_feedback\<close>, and in nothing else: the \<^verbatim>\<open>search\<close> and \<^verbatim>\<open>ui\<close> sections, the
  other fields of \<^verbatim>\<open>processing\<close>, and \<^verbatim>\<open>status.error\<close> and \<^verbatim>\<open>status.timestamp\<close> are as they
  were, whatever the option, \<^verbatim>\<open>respond\<close> and the previous state handed to the updater.
\<close>

theorem feedback_click_frame:
  "search (fst (onClick option state respond) prev) = search state \<and>
   ui (fst (onClick option state respond) prev) = ui state \<and>
   progress (processing (fst (onClick option state respond) prev)) = progress (processing state) \<and>
   phases (processing (fst (onClick option state respond) prev)) = phases (processing state) \<and>
   currentPhase (processing (fst (onClick option state respond) prev)) =
     currentPhase (processing state) \<and>
   recommendations (processing (fst (onClick option state respond) prev)) =
     recommendations (processing state) \<and>
   processing_completed (processing (fst (onClick option state respond) prev)) =
     processing_completed (processing state) \<and>
   feedback (processing (fst (onClick option state respond) prev)) = feedback (processing state) \<and>
   error (status (fst (onClick option state respond) prev)) = error (status state) \<and>
   timestamp (status (fst (onClick option state respond) prev)) = timestamp (status state) \<and>
   inProgress (processing (fst (onClick option state respond) prev)) = True \<and>
   phase (status (fst (onClick option state respond) prev)) = Processing_feedback \<and>
   fst (onClick option state respond) prev =
     state \<lparr> processing := (processing state) \<lparr> inProgress := True \<rparr>,
             status := (status state) \<lparr> phase := Processing_feedback \<rparr> \<rparr>"
  by (simp add: onClick_def feedback_setState_def Let_def)

text \<open>
  C2, as stated, fails in what the \<^verbatim>\<open>feedback\<close> field holds. A run on thread \<^verbatim>\<open>t1\<close> is
  suspended at the prompt: the state is at \<^verbatim>\<open>await_feedback\<close>, with location Chicago. The
  user clicks the first button the render function shows when the tool call names no
  options, "Thank you for the recommendations! These look perfect.". The request that
  carries the answer is on thread \<^verbatim>\<open>t1\<close>, but its \<^verbatim>\<open>feedback\<close> field is the JSON text of an
  object that holds the chosen text, not the chosen text.
\<close>

theorem feedback_answer_counterexample:
  \<open>phase (status (initialState
       \<lparr> status := (status initialState) \<lparr> phase := Await_feedback \<rparr>,
         search := (search initialState) \<lparr> location := ''Chicago'' \<rparr> \<rparr>)) = Await_feedback \<and>
   hd default_feedbackOptions = ''Thank you for the recommendations! These look perfect.'' \<and>
   thread_id (snd (onClick ''Thank you for the recommendations! These look perfect.''
       (initialState
          \<lparr> status := (status initialState) \<lparr> phase := Await_feedback \<rparr>,
            search := (search initialState) \<lparr> location := ''Chicago'' \<rparr> \<rparr>)
       (respond_on_thread ''t1'' ''r2'' []))) = ''t1'' \<and>
   request_feedback (snd (onClick ''Thank you for the recommendations! These look perfect.''
       (initialState
          \<lparr> status := (status initialState) \<lparr> phase := Await_feedback \<rparr>,
            search := (search initialState) \<lparr> location := ''Chicago'' \<rparr> \<rparr>)
       (respond_on_thread ''t1'' ''r2'' []))) =
     Some ''{"feedbackText":"Thank you for the recommendations! These look perfect.","originalLocation":"Chicago"}'' \<and>
   request_feedback (snd (onClick ''Thank you for the recommendations! These look perfect.''
       (initialState
          \<lparr> status := (status initialState) \<lparr> phase := Await_feedback \<rparr>,
            search := (search initialState) \<lparr> location := ''Chicago'' \<rparr> \<rparr>)
       (respond_on_thread ''t1'' ''r2'' []))) \<noteq>
     Some ''Thank you for the recommendations! These look perfect.''\<close>
  by (simp add: onClick_def Let_def JSON_stringify_def json_quote_def json_escape_def
      initialState_def respond_on_thread_def default_feedbackOptions_def)

text \<open>
  The answer determines the option: the escapes of \<^verbatim>\<open>JSON.stringify\<close> form a prefix code
  and none starts with a quote, so a quoted string ends at its closing quote.
\<close>

lemma hex_digit_inj: "n < 16 \<Longrightarrow> m < 16 \<Longrightarrow> hex_digit n = hex_digit m \<Longrightarrow> n = m"
proof -
  assume a: "n < 16" "m < 16" "hex_digit n = hex_digit m"
  have d: "distinct ''0123456789abcdef''" by simp
  have l: "length ''0123456789abcdef'' = 16" by simp
  from a have "''0123456789abcdef'' ! n = ''0123456789abcdef'' ! m"
    by (simp add: hex_digit_def)
  with d a(1,2) l show "n = m"
    by (metis nth_eq_iff_index_eq)
qed

lemma of_char_eqI: "(of_char c :: nat) = of_char c' \<Longrightarrow> c = c'"
  by (metis char_of_char)

lemma low_char_eq:
  assumes "(of_char c :: nat) < 32" "(of_char c' :: nat) < 32"
    and "hex_digit (of_char c div 16) = hex_digit (of_char c' div 16)"
    and "hex_digit (of_char c) = hex_digit (of_char c')"
  shows "c = c'"
proof -
  let ?n = "of_char c :: nat" and ?m = "of_char c' :: nat"
  have "?n div 16 = ?m div 16"
    using assms(1,2,3) by (intro hex_digit_inj) auto
  moreover have "hex_digit (?n mod 16) = hex_digit (?m mod 16)"
    using assms(4) by (simp add: hex_digit_def)
  then have "?n mod 16 = ?m mod 16"
    by (intro hex_digit_inj) auto
  ultimately have "?n = ?m"
    by (metis div_mult_mod_eq)
  then show ?thesis by (rule of_char_eqI)
qed

lemma json_escape_prefix_free:
  "json_escape c @ x = json_escape c' @ y \<Longrightarrow> c = c' \<and> x = y"
  unfolding json_escape_def
  by (auto split: if_splits dest: low_char_eq)

lemma json_escape_not_quote: "json_escape c @ x \<noteq> CHR 0x22 # y"
  unfolding json_escape_def by (auto split: if_splits)

lemma json_body_inj:
  "concat (map json_escape s) @ CHR 0x22 # r = concat (map json_escape s') @ CHR 0x22 # r'
     \<Longrightarrow> s = s' \<and> r = r'"
proof (induction s arbitrary: s')
  case Nil
  then show ?case
  proof (cases s')
    case Nil
    with Nil.prems show ?thesis by simp
  next
    case (Cons c t)
    with Nil.prems
    have "json_escape c @ (concat (map json_escape t) @ CHR 0x22 # r') = CHR 0x22 # r"
      by simp
    then show ?thesis using json_escape_not_quote by blast
  qed
next
  case (Cons c t)
  show ?case
  proof (cases s')
    case Nil
    with Cons.prems
    have "json_escape c @ (concat (map json_escape t) @ CHR 0x22 # r) = CHR 0x22 # r'"
      by simp
    then show ?thesis using json_escape_not_quote by blast
  next
    case (Cons c' t')
    with Cons.prems have "json_escape c @ (concat (map json_escape t) @ CHR 0x22 # r) =
        json_escape c' @ (concat (map json_escape t') @ CHR 0x22 # r')"
      by simp
    then have "c = c'" and
      "concat (map json_escape t) @ CHR 0x22 # r = concat (map json_escape t') @ CHR 0x22 # r'"
      using json_escape_prefix_free by blast+
    with Cons.IH [of t'] Cons show ?thesis by simp
  qed
qed

lemma json_quote_inj: "json_quote s @ r = json_quote s' @ r' \<Longrightarrow> s = s' \<and> r = r'"
  using json_body_inj [of s r s' r'] by (simp add: json_quote_def)

lemma JSON_stringify_inj:
  "JSON_stringify a = JSON_stringify b \<Longrightarrow>
     feedbackText a = feedbackText b \<and> originalLocation a = originalLocation b"
proof -
  assume "JSON_stringify a = JSON_stringify b"
  then have "json_quote (feedbackText a) @ ('','' @ json_quote ''originalLocation'' @ '':'' @
        json_quote (originalLocation a) @ ''}'') =
      json_quote (feedbackText b) @ ('','' @ json_quote ''originalLocation'' @ '':'' @
        json_quote (originalLocation b) @ ''}'')"
    by (simp add: JSON_stringify_def)
  from json_quote_inj [OF this]
  have t: "feedbackText a = feedbackText b"
    and "json_quote ''originalLocation'' @ ('':'' @ json_quote (originalLocation a) @ ''}'') =
      json_quote ''originalLocation'' @ ('':'' @ json_quote (originalLocation b) @ ''}'')"
    by simp_all
  then have "json_quote (originalLocation a) @ ''}'' = json_quote (originalLocation b) @ ''}''"
    by simp
  from json_quote_inj [OF this] t show ?thesis by simp
qed

text \<open>
  C2, amended. For every run suspended at the feedback prompt (and in every other state
  of the UI), when the user chooses a feedback option the UI consumer returns its answer
  via a new top-level request that carries the same \<^verbatim>\<open>thread_id\<close> and whose \<^verbatim>\<open>feedback\<close>
  field is the JSON text \<^verbatim>\<open>{"feedbackText":...,"originalLocation":...}\<close>: the chosen
  feedback text, quoted, is the \<^verbatim>\<open>feedbackText\<close> member of that field, and
  \<^verbatim>\<open>state.search.location\<close> its \<^verbatim>\<open>originalLocation\<close>. The field carries the chosen text
  whole: two such requests have the same \<^verbatim>\<open>feedback\<close> exactly when the option and the
  location are the same. Whatever \<^verbatim>\<open>respond\<close> is, it is called with that JSON text.
\<close>

theorem feedback_answer_is_json:
  \<open>thread_id (snd (onClick option state (respond_on_thread suspended_thread new_run new_messages))) =
     suspended_thread \<and>
   request_feedback
       (snd (onClick option state (respond_on_thread suspended_thread new_run new_messages))) =
     Some (''{"feedbackText":'' @ json_quote option @
           '',"originalLocation":'' @ json_quote (location (search state)) @ ''}'') \<and>
   (request_feedback
       (snd (onClick option state (respond_on_thread suspended_thread new_run new_messages))) =
    request_feedback
       (snd (onClick option' state' (respond_on_thread suspended_thread' new_run' new_messages')))) =
     (option = option' \<and> location (search state) = location (search state')) \<and>
   snd (onClick option state respond) =
     respond (''{"feedbackText":'' @ json_quote option @
              '',"originalLocation":'' @ json_quote (location (search state)) @ ''}'')\<close>
proof -
  have s: "snd (onClick opt st r) =
      r (JSON_stringify \<lparr> feedbackText = opt, originalLocation = location (search st) \<rparr>)"
    for opt st and r :: "string \<Rightarrow> 'b"
    by (simp add: onClick_def Let_def)
  have j: \<open>JSON_stringify \<lparr> feedbackText = option, originalLocation = location (search state) \<rparr> =
      ''{"feedbackText":'' @ json_quote option @
      '',"originalLocation":'' @ json_quote (location (search state)) @ ''}''\<close>
    by (simp add: JSON_stringify_def json_quote_def json_escape_def)
  have 1: "thread_id
      (snd (onClick option state (respond_on_thread suspended_thread new_run new_messages))) =
      suspended_thread"
    by (simp add: s respond_on_thread_def)
  have 2: \<open>request_feedback
       (snd (onClick option state (respond_on_thread suspended_thread new_run new_messages))) =
     Some (''{"feedbackText":'' @ json_quote option @
           '',"originalLocation":'' @ json_quote (location (search state)) @ ''}'')\<close>
    by (simp add: s respond_on_thread_def j)
  have 3: "(request_feedback
       (snd (onClick option state (respond_on_thread suspended_thread new_run new_messages))) =
    request_feedback
       (snd (onClick option' state' (respond_on_thread suspended_thread' new_run' new_messages')))) =
     (option = option' \<and> location (search state) = location (search state'))"
    unfolding s respond_on_thread_def using JSON_stringify_inj by fastforce
  have 4: \<open>snd (onClick option state respond) =
     respond (''{"feedbackText":'' @ json_quote option @
              '',"originalLocation":'' @ json_quote (location (search state)) @ ''}'')\<close>
    by (simp add: s j)
  from 1 2 3 4 show ?thesis by blast
qed

section \<open>The Session Registry hands an entry out once\<close>

lemma take_pending_absent: "reg t = None \<Longrightarrow> take_pending t reg = Inl NotFound"
  by (simp add: take_pending_def)

lemma registry_after_absent:
  "\<not> registers t call \<Longrightarrow> reg t = None \<Longrightarrow> registry_after call reg t = None"
  by (cases call)
     (auto simp: register_def take_pending_def expire_def split: option.splits if_splits)

lemma fold_registry_after_absent:
  "\<forall>call \<in> set calls. \<not> registers t call \<Longrightarrow> reg t = None \<Longrightarrow>
     fold registry_after calls reg t = None"
proof (induction calls arbitrary: reg)
  case Nil
  then show ?case by simp
next
  case (Cons call calls)
  from Cons.prems have "registry_after call reg t = None"
    by (simp add: registry_after_absent)
  with Cons show ?case by simp
qed

text \<open>
  C7. When \<^verbatim>\<open>take(thread_id)\<close> succeeds it returns the PendingFeedback stored for the thread
  and leaves the registry without that entry. A second \<^verbatim>\<open>take\<close> of the same thread returns
  NotFound, straight away and after any calls in between (takes, expiries, registrations
  of other threads) of which none registers the thread again.
\<close>

theorem take_consumes_once:
  assumes "take_pending t reg = Inr (p, reg')"
    and "\<forall>call \<in> set calls. \<not> registers t call"
  shows "(\<exists>since. reg t = Some \<lparr> registered_at = since, pending = p \<rparr>) \<and>
         reg' = reg(t := None) \<and>
         take_pending t reg' = Inl NotFound \<and>
         take_pending t (fold registry_after calls reg') = Inl NotFound"
proof -
  from assms(1) obtain entry
    where e: "reg t = Some entry" "p = pending entry" "reg' = reg(t := None)"
    by (auto simp: take_pending_def split: option.splits)
  have "entry = \<lparr> registered_at = registered_at entry, pending = p \<rparr>"
    using e(2) by simp
  with e(1) have 1: "\<exists>since. reg t = Some \<lparr> registered_at = since, pending = p \<rparr>"
    by metis
  have absent: "reg' t = None" using e(3) by simp
  then have 3: "take_pending t reg' = Inl NotFound"
    by (rule take_pending_absent)
  have "fold registry_after calls reg' t = None"
    using assms(2) absent by (rule fold_registry_after_absent)
  then have 4: "take_pending t (fold registry_after calls reg') = Inl NotFound"
    by (rule take_pending_absent)
  from 1 e(3) 3 4 show ?thesis by blast
qed

text \<open>
  The theorem on a registry that holds thread \<^verbatim>\<open>t1\<close> alone: the take succeeds and empties
  it; after a second take, an expiry of \<^verbatim>\<open>t1\<close> and a registration of \<^verbatim>\<open>t2\<close>, a take of \<^verbatim>\<open>t1\<close>
  returns NotFound.
\<close>

theorem take_consumes_once_witness:
  "take_pending ''t1''
     (Map.empty(''t1'' \<mapsto> \<lparr> registered_at = 7,
        pending = \<lparr> pending_thread_id = ''t1'', prior_recommendations = ''Try Alinea.'',
           prior_restaurants = [], pending_feedbackOptions = [''More budget-friendly options''] \<rparr> \<rparr>))
     = Inr (\<lparr> pending_thread_id = ''t1'', prior_recommendations = ''Try Alinea.'',
           prior_restaurants = [], pending_feedbackOptions = [''More budget-friendly options''] \<rparr>,
           Map.empty) \<and>
   take_pending ''t1''
     (fold registry_after
        [Take ''t1'', Expire ''t1'' 5 100,
         Register ''t2'' \<lparr> pending_thread_id = ''t2'', prior_recommendations = [],
           prior_restaurants = [], pending_feedbackOptions = [] \<rparr> False 9]
        Map.empty) = Inl NotFound"
proof -
  let ?p = "\<lparr> pending_thread_id = ''t1'', prior_recommendations = ''Try Alinea.'',
           prior_restaurants = [], pending_feedbackOptions = [''More budget-friendly options''] \<rparr>"
  let ?reg = "Map.empty(''t1'' \<mapsto> \<lparr> registered_at = 7, pending = ?p \<rparr>)"
  let ?calls = "[Take ''t1'', Expire ''t1'' 5 100,
         Register ''t2'' \<lparr> pending_thread_id = ''t2'', prior_recommendations = [],
           prior_restaurants = [], pending_feedbackOptions = [] \<rparr> False 9]"
  have h1: "take_pending ''t1'' ?reg = Inr (?p, Map.empty)"
    by (simp add: take_pending_def)
  have h2: "\<forall>call \<in> set ?calls. \<not> registers ''t1'' call"
    by simp
  from take_consumes_once [OF h1 h2]
  have "take_pending ''t1'' (fold registry_after ?calls Map.empty) = Inl NotFound"
    by (rule conjunct2 [OF conjunct2 [OF conjunct2]])
  with h1 show ?thesis by (rule conjI)
qed

end
